theory Spec2Isabelle
  imports Main
begin

section \<open>The dispatch demo: stream directory and cascade pull\<close>

text \<open>
  A shallow embedding of \<^verbatim>\<open>app/demo/dispatch/dispatch.go\<close>. The program keeps two
  package-level maps, \<^verbatim>\<open>serverID2Server\<close> (configuration, never written) and
  \<^verbatim>\<open>stream2ServerID\<close> (written by the publish handlers), and one mutex. Each HTTP
  handler is modelled as a function from the directory before the call and the decoded
  request body to the list of mutex and network operations the handler performs, in program
  order, and the directory after the call. Logging and the request id are left out: no
  handler branches on them.
\<close>

subsection \<open>Data\<close>

record Server =
  rtmpAddr :: string
  apiAddr :: string

definition serverID2Server :: "string \<rightharpoonup> Server" where
  "serverID2Server =
     [''1'' \<mapsto> \<lparr>rtmpAddr = ''127.0.0.1:19350'', apiAddr = ''127.0.0.1:8083''\<rparr>,
      ''2'' \<mapsto> \<lparr>rtmpAddr = ''127.0.0.1:19550'', apiAddr = ''127.0.0.1:8283''\<rparr>]"

definition pullSecretParam :: string where
  "pullSecretParam = ''lal_cluster_inner_pull=1''"

text \<open>
  Modelled from the spec: the notification payload types of package \<^verbatim>\<open>base\<close>
  (\<^verbatim>\<open>PubStartInfo\<close>, \<^verbatim>\<open>PubStopInfo\<close>, \<^verbatim>\<open>SubStartInfo\<close>, \<^verbatim>\<open>SubStopInfo\<close>) are declared outside
  this file. The record holds the fields the handlers read, which are the fields the
  specification lists for the inbound events; the four payload types share them.
\<close>

record EventInfo =
  ServerID :: string
  AppName :: string
  StreamName :: string
  URLParam :: string
  HasInSession :: bool

type_synonym PubStartInfo = EventInfo
type_synonym PubStopInfo = EventInfo
type_synonym SubStartInfo = EventInfo
type_synonym SubStopInfo = EventInfo

text \<open>
  Modelled from the spec: the protocol identifiers and the request type of the
  \<^verbatim>\<open>start_pull\<close> control call are declared in package \<^verbatim>\<open>base\<close>, outside this file. The
  handler assigns exactly the five fields below, and the only protocol it names is
  \<^verbatim>\<open>base.ProtocolRTMP\<close>.
\<close>

datatype protocol = ProtocolRTMP

record APICtrlStartPullReq =
  Protocol :: protocol
  Addr :: string
  AppName :: string
  StreamName :: string
  URLParam :: string

text \<open>
  What a handler does to the outside, in program order: it takes the mutex, releases it,
  and posts a JSON body to a URL.
\<close>

datatype action = Lock | Unlock | PostJson string APICtrlStartPullReq

subsection \<open>Library functions\<close>

text \<open>Go's \<^verbatim>\<open>strings.HasPrefix\<close> and \<^verbatim>\<open>strings.Contains\<close> on byte strings.\<close>

fun HasPrefix :: "string \<Rightarrow> string \<Rightarrow> bool" where
  "HasPrefix s [] = True"
| "HasPrefix [] (c # p) = False"
| "HasPrefix (a # s) (c # p) = (a = c \<and> HasPrefix s p)"

fun Contains :: "string \<Rightarrow> string \<Rightarrow> bool" where
  "Contains [] substr = (substr = [])"
| "Contains (a # s) substr = (HasPrefix (a # s) substr \<or> Contains s substr)"

subsection \<open>The handlers\<close>

text \<open>
  The body argument is the result of \<^verbatim>\<open>UnmarshalRequestJsonBody\<close>: \<open>None\<close> when it
  returned an error, in which case every handler returns at once. A
  \<^verbatim>\<open>defer mutex.Unlock()\<close> runs when the function returns, so \<open>Unlock\<close> is the last action
  on every path after \<open>Lock\<close>.
\<close>

definition OnPubStartHandler ::
  "(string \<rightharpoonup> string) \<Rightarrow> PubStartInfo option \<Rightarrow> action list \<times> (string \<rightharpoonup> string)" where
  "OnPubStartHandler stream2ServerID body =
     (case body of
        None \<Rightarrow> ([], stream2ServerID)
      | Some info \<Rightarrow>
          ([Lock, Unlock],
           stream2ServerID(EventInfo.StreamName info \<mapsto> ServerID info)))"

text \<open>
  The comma-ok lookup \<^verbatim>\<open>serverID, exist := stream2ServerID[info.StreamName]\<close> is the
  case distinction on the map's result; \<^verbatim>\<open>delete(stream2ServerID, serverID)\<close> removes the
  key \<open>serverID\<close>, the value just read.
\<close>

definition OnPubStopHandler ::
  "(string \<rightharpoonup> string) \<Rightarrow> PubStopInfo option \<Rightarrow> action list \<times> (string \<rightharpoonup> string)" where
  "OnPubStopHandler stream2ServerID body =
     (case body of
        None \<Rightarrow> ([], stream2ServerID)
      | Some info \<Rightarrow>
          (let (acts, after) =
             (case stream2ServerID (EventInfo.StreamName info) of
                None \<Rightarrow> ([], stream2ServerID)
              | Some serverID \<Rightarrow>
                  if serverID \<noteq> ServerID info then ([], stream2ServerID)
                  else ([], stream2ServerID(serverID := None)))
           in (Lock # acts @ [Unlock], after)))"

definition OnSubStartHandler ::
  "(string \<rightharpoonup> Server) \<Rightarrow> (string \<rightharpoonup> string) \<Rightarrow> SubStartInfo option
     \<Rightarrow> action list \<times> (string \<rightharpoonup> string)" where
  "OnSubStartHandler registry stream2ServerID body =
     (case body of
        None \<Rightarrow> ([], stream2ServerID)
      | Some info \<Rightarrow>
          if Contains (EventInfo.URLParam info) pullSecretParam then ([], stream2ServerID)
          else if HasInSession info then ([], stream2ServerID)
          else
            (let (acts, after) =
               (case registry (ServerID info) of
                  None \<Rightarrow> ([], stream2ServerID)
                | Some reqServer \<Rightarrow>
                    (case stream2ServerID (EventInfo.StreamName info) of
                       None \<Rightarrow> ([], stream2ServerID)
                     | Some pubServerID \<Rightarrow>
                         (case registry pubServerID of
                            None \<Rightarrow> ([], stream2ServerID)
                          | Some pubServer \<Rightarrow>
                              (let url = ''http://'' @ apiAddr reqServer @ ''/api/ctrl/start_pull'';
                                   b = \<lparr>Protocol = ProtocolRTMP,
                                        Addr = rtmpAddr pubServer,
                                        AppName = EventInfo.AppName info,
                                        StreamName = EventInfo.StreamName info,
                                        URLParam = pullSecretParam\<rparr>
                               in ([PostJson url b], stream2ServerID)))))
             in (Lock # acts @ [Unlock], after)))"

definition OnSubStopHandler ::
  "(string \<rightharpoonup> string) \<Rightarrow> SubStopInfo option \<Rightarrow> action list \<times> (string \<rightharpoonup> string)" where
  "OnSubStopHandler stream2ServerID body = ([], stream2ServerID)"

subsection \<open>The server\<close>

text \<open>
  \<^verbatim>\<open>main\<close> routes each request by its path to one handler. A request is the path together
  with the decoded body; \<^verbatim>\<open>/on_update\<close> only logs its body, so it carries none here.
\<close>

datatype request =
    on_pub_start "PubStartInfo option"
  | on_pub_stop "PubStopInfo option"
  | on_sub_start "SubStartInfo option"
  | on_sub_stop "SubStopInfo option"
  | on_update

fun serve ::
  "(string \<rightharpoonup> Server) \<Rightarrow> (string \<rightharpoonup> string) \<Rightarrow> request
     \<Rightarrow> action list \<times> (string \<rightharpoonup> string)" where
  "serve registry dir (on_pub_start body) = OnPubStartHandler dir body"
| "serve registry dir (on_pub_stop body) = OnPubStopHandler dir body"
| "serve registry dir (on_sub_start body) = OnSubStartHandler registry dir body"
| "serve registry dir (on_sub_stop body) = OnSubStopHandler dir body"
| "serve registry dir on_update = ([], dir)"

text \<open>
  The directory after a sequence of requests, handled one after the other (the publish
  handlers hold the mutex for their whole body). \<^verbatim>\<open>main\<close> starts from the empty map.
\<close>

fun serve_all ::
  "(string \<rightharpoonup> Server) \<Rightarrow> (string \<rightharpoonup> string) \<Rightarrow> request list \<Rightarrow> (string \<rightharpoonup> string)" where
  "serve_all registry dir [] = dir"
| "serve_all registry dir (r # rs) = serve_all registry (snd (serve registry dir r)) rs"

subsection \<open>Observations on a handler's actions\<close>

text \<open>The outbound control calls among a handler's actions: target URL and body.\<close>

fun posts :: "action list \<Rightarrow> (string \<times> APICtrlStartPullReq) list" where
  "posts [] = []"
| "posts (PostJson url b # as) = (url, b) # posts as"
| "posts (Lock # as) = posts as"
| "posts (Unlock # as) = posts as"

text \<open>
  \<open>PostJson_unlocked held as\<close>: starting with the mutex held or not, every \<open>PostJson\<close> in
  \<open>as\<close> happens at a moment when the mutex is not held.
\<close>

fun PostJson_unlocked :: "bool \<Rightarrow> action list \<Rightarrow> bool" where
  "PostJson_unlocked held [] = True"
| "PostJson_unlocked held (Lock # as) = PostJson_unlocked True as"
| "PostJson_unlocked held (Unlock # as) = PostJson_unlocked False as"
| "PostJson_unlocked held (PostJson url b # as) = (\<not> held \<and> PostJson_unlocked held as)"

section \<open>Properties\<close>

subsection \<open>The library model\<close>

lemma HasPrefix_iff: "HasPrefix s p \<longleftrightarrow> (\<exists>q. s = p @ q)"
  by (induction s p rule: HasPrefix.induct) auto

lemma Contains_iff: "Contains s sub \<longleftrightarrow> (\<exists>p q. s = p @ sub @ q)"
proof (induction s)
  case Nil
  then show ?case by auto
next
  case (Cons a s)
  show ?case
  proof
    assume "Contains (a # s) sub"
    then consider "HasPrefix (a # s) sub" | "Contains s sub" by auto
    then show "\<exists>p q. a # s = p @ sub @ q"
    proof cases
      case 1
      then obtain q where "a # s = sub @ q" by (auto simp: HasPrefix_iff)
      then have "a # s = [] @ sub @ q" by simp
      then show ?thesis by blast
    next
      case 2
      then obtain p q where "s = p @ sub @ q" using Cons.IH by auto
      then have "a # s = (a # p) @ sub @ q" by simp
      then show ?thesis by blast
    qed
  next
    assume "\<exists>p q. a # s = p @ sub @ q"
    then obtain p q where pq: "a # s = p @ sub @ q" by blast
    show "Contains (a # s) sub"
    proof (cases p)
      case Nil
      then have "HasPrefix (a # s) sub" using pq by (auto simp: HasPrefix_iff)
      then show ?thesis by simp
    next
      case (Cons c p')
      then have "s = p' @ sub @ q" using pq by simp
      then have "Contains s sub" using Cons.IH by blast
      then show ?thesis by simp
    qed
  qed
qed

subsection \<open>Publish stop\<close>

text \<open>
  What \<open>OnPubStopHandler\<close> does when the reporting node is the owner: it deletes the key
  that is spelled like the owner's server id, not the stream's key.
\<close>

lemma OnPubStopHandler_owner:
  assumes "dir (EventInfo.StreamName info) = Some (ServerID info)"
  shows "snd (OnPubStopHandler dir (Some info)) = dir(ServerID info := None)"
  using assms by (simp add: OnPubStopHandler_def)

text \<open>
  C1. Claim: for every directory and every publish-stop whose reported node is the current
  owner of the event's stream, handling the event removes the entry for that stream, so a
  later lookup finds nothing. The code deletes the key \<open>serverID\<close> instead of
  \<open>info.StreamName\<close>: with stream \<open>match1\<close> owned by node \<open>1\<close>, the stop reported by node
  \<open>1\<close> leaves \<open>match1\<close> owned by node \<open>1\<close>.
\<close>

theorem OnPubStopHandler_owner_entry_stays:
  "snd (OnPubStopHandler [''match1'' \<mapsto> ''1'']
          (Some \<lparr>ServerID = ''1'', AppName = ''live'', StreamName = ''match1'',
            URLParam = '''', HasInSession = False\<rparr>)) ''match1''
   = Some ''1''"
  by (simp add: OnPubStopHandler_def)

text \<open>
  C4. A publish-stop whose stream is absent from the directory, or whose reported node is
  not the stream's current owner, leaves the whole directory as it was. Both cases are the
  one condition that the lookup of the stream is not \<open>Some\<close> of the reported node.
\<close>

theorem OnPubStopHandler_stale_noop:
  "dir (EventInfo.StreamName info) \<noteq> Some (ServerID info)
    \<Longrightarrow> snd (OnPubStopHandler dir (Some info)) = dir"
  by (auto simp: OnPubStopHandler_def split: option.splits)

theorem OnPubStopHandler_stale_noop_witness:
  "[''match1'' \<mapsto> ''A''] ''match1'' \<noteq> Some ''B''
   \<and> snd (OnPubStopHandler [''match1'' \<mapsto> ''A'']
        (Some \<lparr>ServerID = ''B'', AppName = ''live'', StreamName = ''match1'',
            URLParam = '''', HasInSession = False\<rparr>))
      = [''match1'' \<mapsto> ''A'']
   \<and> [''match1'' \<mapsto> ''A''] ''other'' \<noteq> Some ''A''
   \<and> snd (OnPubStopHandler [''match1'' \<mapsto> ''A'']
        (Some \<lparr>ServerID = ''A'', AppName = ''live'', StreamName = ''other'',
            URLParam = '''', HasInSession = False\<rparr>))
      = [''match1'' \<mapsto> ''A'']"
proof -
  have h1: "[''match1'' \<mapsto> ''A'']
              (EventInfo.StreamName \<lparr>ServerID = ''B'', AppName = ''live'', StreamName = ''match1'',
            URLParam = '''', HasInSession = False\<rparr>)
            \<noteq> Some (ServerID \<lparr>ServerID = ''B'', AppName = ''live'', StreamName = ''match1'',
            URLParam = '''', HasInSession = False\<rparr>)"
    by simp
  have h2: "[''match1'' \<mapsto> ''A'']
              (EventInfo.StreamName \<lparr>ServerID = ''A'', AppName = ''live'', StreamName = ''other'',
            URLParam = '''', HasInSession = False\<rparr>)
            \<noteq> Some (ServerID \<lparr>ServerID = ''A'', AppName = ''live'', StreamName = ''other'',
            URLParam = '''', HasInSession = False\<rparr>)"
    by simp
  show ?thesis
    using h1 h2
      OnPubStopHandler_stale_noop
        [where dir = "[''match1'' \<mapsto> ''A'']"
           and info = "\<lparr>ServerID = ''B'', AppName = ''live'', StreamName = ''match1'',
            URLParam = '''', HasInSession = False\<rparr>",
         OF h1]
      OnPubStopHandler_stale_noop
        [where dir = "[''match1'' \<mapsto> ''A'']"
           and info = "\<lparr>ServerID = ''A'', AppName = ''live'', StreamName = ''other'',
            URLParam = '''', HasInSession = False\<rparr>",
         OF h2]
    by simp
qed

subsection \<open>Publish start\<close>

text \<open>
  C6. Handling a publish-start sets the directory entry of the event's stream to the
  event's node, whatever the directory held before: the directory afterwards is the old one
  updated at that key, and the lookup of the key gives the event's node.
\<close>

theorem OnPubStartHandler_overwrites:
  "snd (OnPubStartHandler dir (Some info)) = dir(EventInfo.StreamName info \<mapsto> ServerID info)
   \<and> snd (OnPubStartHandler dir (Some info)) (EventInfo.StreamName info) = Some (ServerID info)"
  by (simp add: OnPubStartHandler_def)

text \<open>
  C3. Claim: after a publish-start by \<open>n\<close> for a stream, the lookup of that stream gives
  \<open>n\<close> until a matching publish-stop or a later publish-start for the same stream. The
  deletion by the wrong key breaks it: stream \<open>1\<close> is published on node \<open>2\<close>; stream \<open>x\<close> is
  then published and stopped on node \<open>1\<close>. No later request names stream \<open>1\<close>, yet the stop
  of \<open>x\<close> deletes the key \<open>1\<close>.
\<close>

theorem serve_all_foreign_stop_removes_entry:
  "serve_all serverID2Server Map.empty
     [on_pub_start (Some \<lparr>ServerID = ''2'', AppName = ''live'', StreamName = ''1'',
            URLParam = '''', HasInSession = False\<rparr>)] ''1''
   = Some ''2''
   \<and> serve_all serverID2Server Map.empty
     [on_pub_start (Some \<lparr>ServerID = ''2'', AppName = ''live'', StreamName = ''1'',
            URLParam = '''', HasInSession = False\<rparr>),
      on_pub_start (Some \<lparr>ServerID = ''1'', AppName = ''live'', StreamName = ''x'',
            URLParam = '''', HasInSession = False\<rparr>)] ''1''
   = Some ''2''
   \<and> serve_all serverID2Server Map.empty
     [on_pub_start (Some \<lparr>ServerID = ''2'', AppName = ''live'', StreamName = ''1'',
            URLParam = '''', HasInSession = False\<rparr>),
      on_pub_start (Some \<lparr>ServerID = ''1'', AppName = ''live'', StreamName = ''x'',
            URLParam = '''', HasInSession = False\<rparr>),
      on_pub_stop (Some \<lparr>ServerID = ''1'', AppName = ''live'', StreamName = ''x'',
            URLParam = '''', HasInSession = False\<rparr>)] ''1''
   = None"
  by (simp add: OnPubStartHandler_def OnPubStopHandler_def)

subsection \<open>Subscribe start and stop\<close>

text \<open>
  C9. Handling a subscribe-start or a subscribe-stop leaves the directory as it was, for
  every registry, directory and body; a subscribe-stop performs no action at all.
\<close>

theorem OnSubHandlers_directory_unchanged:
  "snd (OnSubStartHandler registry dir body) = dir
   \<and> snd (OnSubStopHandler dir body') = dir
   \<and> fst (OnSubStopHandler dir body') = []"
  by (auto simp: OnSubStartHandler_def OnSubStopHandler_def Let_def split: option.splits)

text \<open>
  C7. A subscribe-start whose parameter string contains \<open>pullSecretParam\<close> makes no
  outbound call, whatever the registry, the directory and the other fields are.
\<close>

theorem OnSubStartHandler_marker_no_post:
  "Contains (EventInfo.URLParam info) pullSecretParam
    \<Longrightarrow> posts (fst (OnSubStartHandler registry dir (Some info))) = []"
  by (simp add: OnSubStartHandler_def)

theorem OnSubStartHandler_marker_no_post_witness:
  "Contains ''token=7&lal_cluster_inner_pull=1'' pullSecretParam
   \<and> posts (fst (OnSubStartHandler serverID2Server [''match1'' \<mapsto> ''1'']
        (Some \<lparr>ServerID = ''2'', AppName = ''live'', StreamName = ''match1'',
            URLParam = ''token=7&lal_cluster_inner_pull=1'', HasInSession = False\<rparr>))) = []"
proof -
  have h: "Contains
      (EventInfo.URLParam \<lparr>ServerID = ''2'', AppName = ''live'', StreamName = ''match1'',
            URLParam = ''token=7&lal_cluster_inner_pull=1'', HasInSession = False\<rparr>)
      pullSecretParam"
    by (simp add: pullSecretParam_def)
  from OnSubStartHandler_marker_no_post [OF h] h show ?thesis
    by simp
qed

text \<open>
  C8. A subscribe-start that reports a local input session, or whose stream has no owner
  in the directory, makes no outbound call.
\<close>

theorem OnSubStartHandler_local_or_unknown_no_post:
  "HasInSession info \<or> dir (EventInfo.StreamName info) = None
    \<Longrightarrow> posts (fst (OnSubStartHandler registry dir (Some info))) = []"
  by (auto simp: OnSubStartHandler_def Let_def split: option.splits)

theorem OnSubStartHandler_local_or_unknown_no_post_witness:
  "HasInSession \<lparr>ServerID = ''2'', AppName = ''live'', StreamName = ''match1'',
            URLParam = '''', HasInSession = True\<rparr>
   \<and> posts (fst (OnSubStartHandler serverID2Server [''match1'' \<mapsto> ''1'']
        (Some \<lparr>ServerID = ''2'', AppName = ''live'', StreamName = ''match1'',
            URLParam = '''', HasInSession = True\<rparr>))) = []
   \<and> [''match1'' \<mapsto> ''1''] ''unknown'' = None
   \<and> posts (fst (OnSubStartHandler serverID2Server [''match1'' \<mapsto> ''1'']
        (Some \<lparr>ServerID = ''2'', AppName = ''live'', StreamName = ''unknown'',
            URLParam = '''', HasInSession = False\<rparr>))) = []"
proof -
  have h1: "HasInSession \<lparr>ServerID = ''2'', AppName = ''live'', StreamName = ''match1'',
            URLParam = '''', HasInSession = True\<rparr>
            \<or> [''match1'' \<mapsto> ''1'']
                (EventInfo.StreamName \<lparr>ServerID = ''2'', AppName = ''live'', StreamName = ''match1'',
            URLParam = '''', HasInSession = True\<rparr>)
              = None"
    by simp
  have h2: "HasInSession \<lparr>ServerID = ''2'', AppName = ''live'', StreamName = ''unknown'',
            URLParam = '''', HasInSession = False\<rparr>
            \<or> [''match1'' \<mapsto> ''1'']
                (EventInfo.StreamName \<lparr>ServerID = ''2'', AppName = ''live'', StreamName = ''unknown'',
            URLParam = '''', HasInSession = False\<rparr>)
              = None"
    by simp
  show ?thesis
    using
      OnSubStartHandler_local_or_unknown_no_post
        [where registry = serverID2Server
           and dir = "[''match1'' \<mapsto> ''1'']"
           and info = "\<lparr>ServerID = ''2'', AppName = ''live'', StreamName = ''match1'',
            URLParam = '''', HasInSession = True\<rparr>",
         OF h1]
      OnSubStartHandler_local_or_unknown_no_post
        [where registry = serverID2Server
           and dir = "[''match1'' \<mapsto> ''1'']"
           and info = "\<lparr>ServerID = ''2'', AppName = ''live'', StreamName = ''unknown'',
            URLParam = '''', HasInSession = False\<rparr>",
         OF h2]
    by simp
qed

text \<open>
  C5. Every outbound call that a subscribe-start produces carries the data-plane
  (\<open>rtmpAddr\<close>) address that the registry gives for the stream's current owner, the
  application and stream names of the event, and \<open>pullSecretParam\<close> as its parameter
  string.
\<close>

theorem OnSubStartHandler_post_fields:
  "(url, b) \<in> set (posts (fst (OnSubStartHandler registry dir (Some info))))
    \<Longrightarrow> (\<exists>owner pubServer.
           dir (EventInfo.StreamName info) = Some owner
           \<and> registry owner = Some pubServer
           \<and> Addr b = rtmpAddr pubServer)
       \<and> APICtrlStartPullReq.AppName b = EventInfo.AppName info
       \<and> APICtrlStartPullReq.StreamName b = EventInfo.StreamName info
       \<and> APICtrlStartPullReq.URLParam b = pullSecretParam"
  by (auto simp: OnSubStartHandler_def Let_def split: option.splits if_splits)

theorem OnSubStartHandler_post_fields_witness:
  "(''http://127.0.0.1:8283/api/ctrl/start_pull'',
    \<lparr>Protocol = ProtocolRTMP, Addr = ''127.0.0.1:19350'', AppName = ''live'',
            StreamName = ''match1'', URLParam = ''lal_cluster_inner_pull=1''\<rparr>)
     \<in> set (posts (fst (OnSubStartHandler serverID2Server [''match1'' \<mapsto> ''1'']
          (Some \<lparr>ServerID = ''2'', AppName = ''live'', StreamName = ''match1'',
            URLParam = '''', HasInSession = False\<rparr>))))
   \<and> (\<exists>owner pubServer.
         [''match1'' \<mapsto> ''1''] ''match1'' = Some owner
         \<and> serverID2Server owner = Some pubServer
         \<and> ''127.0.0.1:19350'' = rtmpAddr pubServer)"
proof -
  have h: "(''http://127.0.0.1:8283/api/ctrl/start_pull'',
    \<lparr>Protocol = ProtocolRTMP, Addr = ''127.0.0.1:19350'', AppName = ''live'',
            StreamName = ''match1'', URLParam = ''lal_cluster_inner_pull=1''\<rparr>)
     \<in> set (posts (fst (OnSubStartHandler serverID2Server [''match1'' \<mapsto> ''1'']
          (Some \<lparr>ServerID = ''2'', AppName = ''live'', StreamName = ''match1'',
            URLParam = '''', HasInSession = False\<rparr>))))"
    by (simp add: OnSubStartHandler_def serverID2Server_def pullSecretParam_def)
  from OnSubStartHandler_post_fields [OF h] h show ?thesis
    by simp
qed

text \<open>
  C10. No guard compares the requesting node with the owner. When the requesting node is
  itself the owner of the stream, is in the registry, reports no local input session and
  its parameter string lacks \<open>pullSecretParam\<close>, the handler makes exactly one outbound
  call: to that node's own control address, with that same node's data-plane address as
  the source.
\<close>

theorem OnSubStartHandler_self_pull:
  "dir (EventInfo.StreamName info) = Some (ServerID info)
    \<Longrightarrow> \<not> Contains (EventInfo.URLParam info) pullSecretParam
    \<Longrightarrow> \<not> HasInSession info
    \<Longrightarrow> registry (ServerID info) = Some srv
    \<Longrightarrow> posts (fst (OnSubStartHandler registry dir (Some info))) =
          [(''http://'' @ apiAddr srv @ ''/api/ctrl/start_pull'',
            \<lparr>Protocol = ProtocolRTMP, Addr = rtmpAddr srv,
             AppName = EventInfo.AppName info,
             StreamName = EventInfo.StreamName info,
             URLParam = pullSecretParam\<rparr>)]"
  by (simp add: OnSubStartHandler_def)

theorem OnSubStartHandler_self_pull_witness:
  "[''match1'' \<mapsto> ''1''] ''match1'' = Some ''1''
   \<and> \<not> Contains '''' pullSecretParam
   \<and> serverID2Server ''1''
       = Some \<lparr>rtmpAddr = ''127.0.0.1:19350'', apiAddr = ''127.0.0.1:8083''\<rparr>
   \<and> posts (fst (OnSubStartHandler serverID2Server [''match1'' \<mapsto> ''1'']
        (Some \<lparr>ServerID = ''1'', AppName = ''live'', StreamName = ''match1'',
            URLParam = '''', HasInSession = False\<rparr>))) =
      [(''http://127.0.0.1:8083/api/ctrl/start_pull'',
        \<lparr>Protocol = ProtocolRTMP, Addr = ''127.0.0.1:19350'', AppName = ''live'',
            StreamName = ''match1'', URLParam = ''lal_cluster_inner_pull=1''\<rparr>)]"
proof -
  have h1: "[''match1'' \<mapsto> ''1'']
              (EventInfo.StreamName \<lparr>ServerID = ''1'', AppName = ''live'', StreamName = ''match1'',
            URLParam = '''', HasInSession = False\<rparr>)
            = Some (ServerID \<lparr>ServerID = ''1'', AppName = ''live'', StreamName = ''match1'',
            URLParam = '''', HasInSession = False\<rparr>)"
    by simp
  have h2: "\<not> Contains
      (EventInfo.URLParam \<lparr>ServerID = ''1'', AppName = ''live'', StreamName = ''match1'',
            URLParam = '''', HasInSession = False\<rparr>)
      pullSecretParam"
    by (simp add: pullSecretParam_def)
  have h3: "\<not> HasInSession \<lparr>ServerID = ''1'', AppName = ''live'', StreamName = ''match1'',
            URLParam = '''', HasInSession = False\<rparr>"
    by simp
  have h4: "serverID2Server (ServerID \<lparr>ServerID = ''1'', AppName = ''live'', StreamName = ''match1'',
            URLParam = '''', HasInSession = False\<rparr>)
            = Some \<lparr>rtmpAddr = ''127.0.0.1:19350'', apiAddr = ''127.0.0.1:8083''\<rparr>"
    by (simp add: serverID2Server_def)
  show ?thesis
    using h1 h2 h4
      OnSubStartHandler_self_pull
        [where registry = serverID2Server
           and dir = "[''match1'' \<mapsto> ''1'']"
           and info = "\<lparr>ServerID = ''1'', AppName = ''live'', StreamName = ''match1'',
            URLParam = '''', HasInSession = False\<rparr>",
         OF h1 h2 h3 h4]
    by (simp add: pullSecretParam_def)
qed

subsection \<open>The mutex and the outbound call\<close>

text \<open>
  C2. Claim: the outbound call is never made while the mutex is held. The handler defers
  the unlock to its return, so the call is made with the mutex held: for stream \<open>match1\<close>
  owned by node \<open>1\<close> and a subscriber on node \<open>2\<close>, the actions do not keep every
  \<open>PostJson\<close> outside the locked region.
\<close>

theorem OnSubStartHandler_post_unlocked_counterexample:
  "\<not> PostJson_unlocked False
        (fst (OnSubStartHandler serverID2Server [''match1'' \<mapsto> ''1'']
           (Some \<lparr>ServerID = ''2'', AppName = ''live'', StreamName = ''match1'',
            URLParam = '''', HasInSession = False\<rparr>)))"
  by (simp add: OnSubStartHandler_def serverID2Server_def pullSecretParam_def)

text \<open>
  C2, as the code has it: whenever handling a subscribe-start makes an outbound call, the
  handler's actions are exactly taking the mutex, the call, and releasing the mutex, in
  this order. The call is made while the mutex is held, and the mutex is released after
  it.
\<close>

theorem OnSubStartHandler_post_under_lock:
  "PostJson url b \<in> set (fst (OnSubStartHandler registry dir body))
    \<Longrightarrow> fst (OnSubStartHandler registry dir body) = [Lock, PostJson url b, Unlock]"
  by (auto simp: OnSubStartHandler_def Let_def split: option.splits if_splits)

theorem OnSubStartHandler_post_under_lock_witness:
  "PostJson ''http://127.0.0.1:8283/api/ctrl/start_pull''
      \<lparr>Protocol = ProtocolRTMP, Addr = ''127.0.0.1:19350'', AppName = ''live'',
            StreamName = ''match1'', URLParam = ''lal_cluster_inner_pull=1''\<rparr>
     \<in> set (fst (OnSubStartHandler serverID2Server [''match1'' \<mapsto> ''1'']
          (Some \<lparr>ServerID = ''2'', AppName = ''live'', StreamName = ''match1'',
            URLParam = '''', HasInSession = False\<rparr>)))
   \<and> fst (OnSubStartHandler serverID2Server [''match1'' \<mapsto> ''1'']
        (Some \<lparr>ServerID = ''2'', AppName = ''live'', StreamName = ''match1'',
            URLParam = '''', HasInSession = False\<rparr>))
      = [Lock,
         PostJson ''http://127.0.0.1:8283/api/ctrl/start_pull''
           \<lparr>Protocol = ProtocolRTMP, Addr = ''127.0.0.1:19350'', AppName = ''live'',
            StreamName = ''match1'', URLParam = ''lal_cluster_inner_pull=1''\<rparr>,
         Unlock]"
proof -
  have h: "PostJson ''http://127.0.0.1:8283/api/ctrl/start_pull''
      \<lparr>Protocol = ProtocolRTMP, Addr = ''127.0.0.1:19350'', AppName = ''live'',
            StreamName = ''match1'', URLParam = ''lal_cluster_inner_pull=1''\<rparr>
     \<in> set (fst (OnSubStartHandler serverID2Server [''match1'' \<mapsto> ''1'']
          (Some \<lparr>ServerID = ''2'', AppName = ''live'', StreamName = ''match1'',
            URLParam = '''', HasInSession = False\<rparr>)))"
    by (simp add: OnSubStartHandler_def serverID2Server_def pullSecretParam_def)
  from OnSubStartHandler_post_under_lock [OF h] h show ?thesis
    by blast
qed

end
